theory Spec2Isabelle
  imports Main "HOL-Library.Word"
begin

section \<open>Data model of \<open>include/lyra/parser.hpp\<close>\<close>

text \<open>
  The header declares the parser customization interface with its default, the
  \<open>parse_state\<close> value class, the polymorphic \<open>parser_base\<close> and the CRTP base
  \<open>bound_parser\<close>. Objects that are mutated through \<open>this\<close> live in an explicit store,
  so that "returns the same object" and "leaves everything else alone" can be stated.
  \<open>size_t\<close> is an unsigned machine word of some width \<open>LENGTH('w)\<close>: \<open>+\<close> and \<open>-\<close>
  wrap around, \<open>unat\<close> reads the number.
\<close>

type_synonym addr = nat
type_synonym 'w size_t = "'w word"

subsection \<open>\<open>parser_customization\<close> and \<open>default_parser_customization\<close>\<close>

text \<open>
  The interface has two const virtual functions without arguments, each returning a
  \<open>std::string\<close>; an implementation is the pair of strings it returns.
\<close>

record parser_customization =
  token_delimiters :: string
  option_prefix :: string

definition default_parser_customization :: parser_customization where
  "default_parser_customization = \<lparr>token_delimiters = '' ='', option_prefix = ''-''\<rparr>"

subsection \<open>\<open>detail::parse_state\<close>\<close>

text \<open>
  \<open>parser_result_type\<close> and \<open>token_iterator\<close> are declared in headers that are not part
  of this file; they are the type parameters \<open>'t\<close> and \<open>'i\<close>.
\<close>

record ('t, 'i) parse_state =
  m_type :: 't
  m_remainingTokens :: 'i

definition parse_state_ctor :: "'t \<Rightarrow> 'i \<Rightarrow> ('t, 'i) parse_state" where
  "parse_state_ctor type remainingTokens = \<lparr>m_type = type, m_remainingTokens = remainingTokens\<rparr>"

definition parse_state_type :: "('t, 'i) parse_state \<Rightarrow> 't" where
  "parse_state_type ps = m_type ps"

definition parse_state_remainingTokens :: "('t, 'i) parse_state \<Rightarrow> 'i" where
  "parse_state_remainingTokens ps = m_remainingTokens ps"

text \<open>
  The public operations of the class after construction are its two member functions.
  A call is modelled with the object passed through, so that a change of the object
  would be visible: the pair is the value returned and the object after the call.
\<close>

datatype parse_state_op = Call_type | Call_remainingTokens

datatype ('t, 'i) parse_state_ret = Ret_type 't | Ret_remainingTokens 'i

fun parse_state_call ::
  "parse_state_op \<Rightarrow> ('t, 'i) parse_state \<Rightarrow> ('t, 'i) parse_state_ret \<times> ('t, 'i) parse_state" where
  "parse_state_call Call_type ps = (Ret_type (parse_state_type ps), ps)"
| "parse_state_call Call_remainingTokens ps = (Ret_remainingTokens (parse_state_remainingTokens ps), ps)"

fun parse_state_calls ::
  "parse_state_op list \<Rightarrow> ('t, 'i) parse_state \<Rightarrow> ('t, 'i) parse_state_ret list \<times> ('t, 'i) parse_state" where
  "parse_state_calls [] ps = ([], ps)"
| "parse_state_calls (c # cs) ps =
     (case parse_state_call c ps of (r, ps1) \<Rightarrow>
        (case parse_state_calls cs ps1 of (rs, ps2) \<Rightarrow> (r # rs, ps2)))"

subsection \<open>\<open>result\<close>\<close>

text \<open>
  Modelled from the spec: the header \<open>lyra/detail/result.hpp\<close> with the type \<open>result\<close>
  is missing. The specification describes an outcome as either success or a failure
  carrying an error-kind tag and a human-readable message, and lists the error kinds.
\<close>

datatype error_kind =
  UnrecognizedTokenError | ConversionError | ApplicationError | CardinalityError | MissingValueError

datatype result = ok | failure error_kind string

subsection \<open>\<open>bound_parser\<close> objects and the store\<close>

text \<open>
  \<open>m_ref\<close> is a \<open>std::shared_ptr<detail::BoundRef>\<close>: the address of a \<open>BoundRef\<close>
  object that other parsers may share. The size type is the parameter \<open>'s\<close>, which
  every function below takes at \<open>'w size_t\<close>.
\<close>

record 's bound_parser =
  m_ref :: addr
  m_hint :: string
  m_description :: string
  m_cardinality :: "'s \<times> 's"

text \<open>
  The dynamic type of a parser object. \<open>Composable_parser\<close> stands for a concrete
  \<open>composable_parser\<close> that adds nothing but the pure virtual \<open>parse\<close>, so that it
  inherits every other virtual function of \<open>parser_base\<close>; \<open>Bound_parser\<close> is an
  object whose virtual functions are those of \<open>bound_parser\<close>.
\<close>

datatype 's parser = Composable_parser | Bound_parser "'s bound_parser"

text \<open>
  The program state: the parser objects by address, the \<open>BoundRef\<close> objects that
  \<open>std::make_shared\<close> has allocated (a \<open>BoundRef\<close> is the type parameter \<open>'r\<close>, its
  class being declared in \<open>lyra/detail/bound.hpp\<close>, and its address is its index), and
  the destinations outside the parsers that the \<open>BoundRef\<close> objects refer to.
\<close>

record ('s, 'r, 'd) state =
  parsers :: "addr \<rightharpoonup> 's parser"
  refs :: "'r list"
  dests :: 'd

definition ref_at :: "('s, 'r, 'd) state \<Rightarrow> addr \<Rightarrow> 'r option" where
  "ref_at s a = (if a < length (refs s) then Some (refs s ! a) else None)"

definition make_shared :: "'r \<Rightarrow> ('s, 'r, 'd) state \<Rightarrow> addr \<times> ('s, 'r, 'd) state" where
  "make_shared r s = (length (refs s), s\<lparr>refs := refs s @ [r]\<rparr>)"

section \<open>\<open>parser_base\<close>\<close>

definition parser_base_validate :: result where
  "parser_base_validate = ok"

definition parser_base_cardinality :: "'w::len size_t \<times> 'w size_t" where
  "parser_base_cardinality = (0, 1)"

definition bound_parser_cardinality :: "'w::len size_t bound_parser \<Rightarrow> 'w size_t \<times> 'w size_t" where
  "bound_parser_cardinality p = m_cardinality p"

text \<open>
  Virtual dispatch. \<open>bound_parser\<close> overrides \<open>cardinality() const\<close> and does not
  override \<open>validate()\<close>.
\<close>

fun cardinality :: "'w::len size_t parser \<Rightarrow> 'w size_t \<times> 'w size_t" where
  "cardinality Composable_parser = parser_base_cardinality"
| "cardinality (Bound_parser p) = bound_parser_cardinality p"

fun validate :: "'w::len size_t parser \<Rightarrow> result" where
  "validate Composable_parser = parser_base_validate"
| "validate (Bound_parser p) = parser_base_validate"

definition cardinality_count :: "'w::len size_t parser \<Rightarrow> 'w size_t" where
  "cardinality_count p = (let c = cardinality p in snd c - fst c)"

definition is_optional :: "'w::len size_t parser \<Rightarrow> bool" where
  "is_optional p = (let c = cardinality p in (fst c = 0) \<and> (snd c > 0))"

text \<open>
  \<open>parse(args, customize = default_parser_customization())\<close>. The class \<open>args\<close>, the
  constructor of \<open>detail::token_iterator\<close> and the pure virtual
  \<open>parse(exe_name, tokens, customize)\<close> are not defined in this file: \<open>exe_name\<close>,
  \<open>token_iterator\<close> and \<open>vparse\<close> are parameters. A call that leaves the second
  argument out is \<open>None\<close>.
\<close>

definition parser_base_parse ::
  "(string \<Rightarrow> 'i \<Rightarrow> parser_customization \<Rightarrow> 'pr) \<Rightarrow> ('a \<Rightarrow> string) \<Rightarrow>
   ('a \<Rightarrow> string \<Rightarrow> string \<Rightarrow> 'i) \<Rightarrow> 'a \<Rightarrow> parser_customization option \<Rightarrow> 'pr" where
  "parser_base_parse vparse exe_name token_iterator args customize_arg =
     (let customize = (case customize_arg of None \<Rightarrow> default_parser_customization | Some c \<Rightarrow> c)
      in vparse (exe_name args)
           (token_iterator args (token_delimiters customize) (option_prefix customize))
           customize)"

section \<open>\<open>bound_parser\<close>\<close>

text \<open>
  The protected constructor stores the shared pointer and reads \<open>isContainer()\<close> through
  it; the strings are default-constructed. Dereferencing a pointer that owns no object
  has no defined result: \<open>None\<close>. \<open>isContainer\<close> is a virtual function of the missing
  class \<open>BoundRef\<close> and is a parameter.
\<close>

definition bound_parser_ctor ::
  "('r \<Rightarrow> bool) \<Rightarrow> addr \<Rightarrow> addr \<Rightarrow> ('w::len size_t, 'r, 'd) state \<Rightarrow> ('w size_t, 'r, 'd) state option" where
  "bound_parser_ctor isContainer this ref s =
     (case ref_at s ref of
        None \<Rightarrow> None
      | Some r \<Rightarrow>
          Some (s\<lparr>parsers := (parsers s)(this \<mapsto> Bound_parser
            \<lparr>m_ref = ref, m_hint = [], m_description = [],
             m_cardinality = (if isContainer r then (0, 0) else (0, 1))\<rparr>)\<rparr>))"

text \<open>
  The two public constructors differ only in the class of the \<open>BoundRef\<close> that
  \<open>std::make_shared\<close> creates (\<open>BoundValueRef<T>\<close> or \<open>BoundLambda<LambdaT>\<close>); \<open>r\<close> is
  that object. Both delegate to the protected constructor and then assign \<open>m_hint\<close>.
\<close>

definition bound_parser_ctor_hint ::
  "('r \<Rightarrow> bool) \<Rightarrow> addr \<Rightarrow> 'r \<Rightarrow> string \<Rightarrow> ('w::len size_t, 'r, 'd) state \<Rightarrow> ('w size_t, 'r, 'd) state option" where
  "bound_parser_ctor_hint isContainer this r hint s =
     (case make_shared r s of (ref, s1) \<Rightarrow>
        (case bound_parser_ctor isContainer this ref s1 of
           None \<Rightarrow> None
         | Some s2 \<Rightarrow>
             (case parsers s2 this of
                Some (Bound_parser p) \<Rightarrow>
                  Some (s2\<lparr>parsers := (parsers s2)(this \<mapsto> Bound_parser (p\<lparr>m_hint := hint\<rparr>))\<rparr>)
              | _ \<Rightarrow> None)))"

text \<open>
  The fluent member functions assign one field of \<open>*this\<close> and return
  \<open>static_cast<DerivedT&>(*this)\<close>: the address returned and the state after the call.
  A call on an address that holds no \<open>bound_parser\<close> has no defined result.
\<close>

definition bound_parser_call ::
  "addr \<Rightarrow> string \<Rightarrow> ('w::len size_t, 'r, 'd) state \<Rightarrow> (addr \<times> ('w size_t, 'r, 'd) state) option" where
  "bound_parser_call this description s =
     (case parsers s this of
        Some (Bound_parser p) \<Rightarrow>
          Some (this, s\<lparr>parsers := (parsers s)(this \<mapsto> Bound_parser (p\<lparr>m_description := description\<rparr>))\<rparr>)
      | _ \<Rightarrow> None)"

definition bound_parser_cardinality_n ::
  "addr \<Rightarrow> 'w::len size_t \<Rightarrow> ('w size_t, 'r, 'd) state \<Rightarrow> (addr \<times> ('w size_t, 'r, 'd) state) option" where
  "bound_parser_cardinality_n this n s =
     (case parsers s this of
        Some (Bound_parser p) \<Rightarrow>
          Some (this, s\<lparr>parsers := (parsers s)(this \<mapsto> Bound_parser (p\<lparr>m_cardinality := (n, n)\<rparr>))\<rparr>)
      | _ \<Rightarrow> None)"

definition bound_parser_cardinality_n_m ::
  "addr \<Rightarrow> 'w::len size_t \<Rightarrow> 'w size_t \<Rightarrow> ('w size_t, 'r, 'd) state \<Rightarrow>
   (addr \<times> ('w size_t, 'r, 'd) state) option" where
  "bound_parser_cardinality_n_m this n m s =
     (case parsers s this of
        Some (Bound_parser p) \<Rightarrow>
          Some (this, s\<lparr>parsers := (parsers s)(this \<mapsto> Bound_parser (p\<lparr>m_cardinality := (n, m)\<rparr>))\<rparr>)
      | _ \<Rightarrow> None)"

definition bound_parser_optional ::
  "addr \<Rightarrow> ('w::len size_t, 'r, 'd) state \<Rightarrow> (addr \<times> ('w size_t, 'r, 'd) state) option" where
  "bound_parser_optional this s = bound_parser_cardinality_n_m this 0 1 s"

definition bound_parser_required ::
  "addr \<Rightarrow> ('w::len size_t, 'r, 'd) state \<Rightarrow> (addr \<times> ('w size_t, 'r, 'd) state) option" where
  "bound_parser_required this s = bound_parser_cardinality_n_m this 1 1 s"

definition bound_parser_hint :: "'s bound_parser \<Rightarrow> string" where
  "bound_parser_hint p = m_hint p"

text \<open>The fluent configuration calls, as one type, to speak about each of them.\<close>

datatype 's fluent_op =
  Fluent_required
| Fluent_optional
| Fluent_cardinality_n 's
| Fluent_cardinality_n_m 's 's
| Fluent_description string

fun fluent_call ::
  "'w::len size_t fluent_op \<Rightarrow> addr \<Rightarrow> ('w size_t, 'r, 'd) state \<Rightarrow>
   (addr \<times> ('w size_t, 'r, 'd) state) option" where
  "fluent_call Fluent_required this s = bound_parser_required this s"
| "fluent_call Fluent_optional this s = bound_parser_optional this s"
| "fluent_call (Fluent_cardinality_n n) this s = bound_parser_cardinality_n this n s"
| "fluent_call (Fluent_cardinality_n_m n m) this s = bound_parser_cardinality_n_m this n m s"
| "fluent_call (Fluent_description d) this s = bound_parser_call this d s"

section \<open>A concrete configuration\<close>

text \<open>
  The examples below run on one small state. A \<open>BoundRef\<close> is represented by the
  answer of its \<open>isContainer()\<close>: the object at address 0 is container-typed, the one
  at address 1 is not. One \<open>bound_parser\<close> with hint \<open>name\<close>, bound to the second
  object, lives at address 7, and there is one destination outside the parsers.
\<close>

definition example_isContainer :: "bool \<Rightarrow> bool" where
  "example_isContainer r = r"

definition example_parser :: "64 size_t bound_parser" where
  "example_parser = \<lparr>m_ref = 1, m_hint = ''name'', m_description = [], m_cardinality = (0, 1)\<rparr>"

definition example_state :: "(64 size_t, bool, string list) state" where
  "example_state =
     \<lparr>parsers = [7 \<mapsto> Bound_parser example_parser], refs = [True, False], dests = [''v'']\<rparr>"

section \<open>Properties\<close>

subsection \<open>Facts about the calls, used below\<close>

lemma bound_parser_ctor_Some:
  assumes "ref_at s ref = Some r"
  shows "bound_parser_ctor isContainer this ref s =
    Some (s\<lparr>parsers := (parsers s)(this \<mapsto> Bound_parser
      \<lparr>m_ref = ref, m_hint = [], m_description = [],
       m_cardinality = (if isContainer r then (0, 0) else (0, 1))\<rparr>)\<rparr>)"
  using assms by (simp add: bound_parser_ctor_def)

lemma ref_at_make_shared:
  "make_shared r s = (a, s1) \<Longrightarrow> ref_at s1 a = Some r"
  by (auto simp: make_shared_def ref_at_def)

lemma fluent_call_Some:
  assumes "parsers s this = Some (Bound_parser p)"
  shows "fluent_call f this s =
    Some (this, s\<lparr>parsers := (parsers s)(this \<mapsto> Bound_parser
      (case f of
         Fluent_required \<Rightarrow> p\<lparr>m_cardinality := (1, 1)\<rparr>
       | Fluent_optional \<Rightarrow> p\<lparr>m_cardinality := (0, 1)\<rparr>
       | Fluent_cardinality_n n \<Rightarrow> p\<lparr>m_cardinality := (n, n)\<rparr>
       | Fluent_cardinality_n_m n m \<Rightarrow> p\<lparr>m_cardinality := (n, m)\<rparr>
       | Fluent_description d \<Rightarrow> p\<lparr>m_description := d\<rparr>))\<rparr>)"
  using assms
  by (cases f)
     (simp_all add: bound_parser_required_def bound_parser_optional_def
        bound_parser_cardinality_n_def bound_parser_cardinality_n_m_def bound_parser_call_def)

lemma parse_state_call_unchanged: "snd (parse_state_call c ps) = ps"
  by (cases c) simp_all

lemma parse_state_calls_unchanged: "snd (parse_state_calls cs ps) = ps"
proof (induction cs)
  case Nil
  show ?case by simp
next
  case (Cons c cs)
  obtain r where r: "parse_state_call c ps = (r, ps)"
    using parse_state_call_unchanged [of c ps] by (cases "parse_state_call c ps") simp
  obtain rs where rs: "parse_state_calls cs ps = (rs, ps)"
    using Cons.IH by (cases "parse_state_calls cs ps") simp
  show ?case by (simp add: r rs)
qed

lemma parse_state_calls_results:
  "fst (parse_state_calls cs ps) = map (\<lambda>c. fst (parse_state_call c ps)) cs"
proof (induction cs)
  case Nil
  show ?case by simp
next
  case (Cons c cs)
  obtain r where r: "parse_state_call c ps = (r, ps)"
    using parse_state_call_unchanged [of c ps] by (cases "parse_state_call c ps") simp
  obtain rs where rs: "parse_state_calls cs ps = (rs, ps)"
    using parse_state_calls_unchanged [of cs ps] by (cases "parse_state_calls cs ps") simp
  show ?case
    using Cons.IH by (simp add: r rs)
qed

subsection \<open>Optional parsers\<close>

text \<open>
  Claim C1, as amended. For every parser, \<open>is_optional()\<close> is true if and only if the
  minimum of the cardinality it reports is 0 and the maximum, read as a number, is
  greater than 0. The function compares the maximum with 0 and knows no unbounded
  maximum.
\<close>

theorem is_optional_iff_min_zero_max_positive:
  "is_optional p \<longleftrightarrow> unat (fst (cardinality p)) = 0 \<and> 0 < unat (snd (cardinality p))"
  by (simp add: is_optional_def Let_def unat_eq_0 unat_gt_0 word_neq_0_conv)

text \<open>
  The claim as first stated counts the maximum 0 of a container-bound parser as
  unbounded and therefore such a parser as optional. The constructor gives a parser
  bound to the container-typed object the cardinality (0,0), and \<open>is_optional()\<close> is
  false for it.
\<close>

theorem is_optional_container_default_counterexample:
  "bound_parser_ctor example_isContainer 3 0 example_state
     = Some (example_state\<lparr>parsers := (parsers example_state)(3 \<mapsto> Bound_parser
         \<lparr>m_ref = 0, m_hint = [], m_description = [], m_cardinality = (0, 0)\<rparr>)\<rparr>)
   \<and> cardinality (Bound_parser
         \<lparr>m_ref = 0, m_hint = [], m_description = [], m_cardinality = (0, 0 :: 64 size_t)\<rparr>) = (0, 0)
   \<and> \<not> is_optional (Bound_parser
         \<lparr>m_ref = 0, m_hint = [], m_description = [], m_cardinality = (0, 0 :: 64 size_t)\<rparr>)"
  by (simp add: bound_parser_ctor_def ref_at_def is_optional_def bound_parser_cardinality_def
      example_state_def example_isContainer_def)

subsection \<open>Validation\<close>

text \<open>
  Claim C2, as amended. \<open>validate()\<close> is defined by \<open>parser_base\<close> and not overridden
  by \<open>bound_parser\<close>: it returns success for every parser, whatever its cardinality.
  A parser of this file records no number of matches, and \<open>validate()\<close> reports no
  \<open>CardinalityError\<close>.
\<close>

theorem validate_always_ok: "validate p = ok"
  by (cases p) (simp_all add: parser_base_validate_def)

text \<open>
  The claim as first stated wants a failure from a required bound parser that has
  matched nothing. The parser of the example is made required and has taken part in
  no parse; its \<open>validate()\<close> returns \<open>ok\<close>.
\<close>

theorem validate_required_counterexample:
  "bound_parser_required 7 example_state
     = Some (7, example_state\<lparr>parsers := (parsers example_state)(7 \<mapsto>
         Bound_parser (example_parser\<lparr>m_cardinality := (1, 1)\<rparr>))\<rparr>)
   \<and> cardinality (Bound_parser (example_parser\<lparr>m_cardinality := (1, 1)\<rparr>)) = (1, 1)
   \<and> validate (Bound_parser (example_parser\<lparr>m_cardinality := (1, 1)\<rparr>)) = ok
   \<and> validate (Bound_parser (example_parser\<lparr>m_cardinality := (1, 1)\<rparr>))
       \<noteq> failure CardinalityError []"
  by (simp add: bound_parser_required_def bound_parser_cardinality_n_m_def
      bound_parser_cardinality_def parser_base_validate_def example_state_def)

subsection \<open>Construction\<close>

text \<open>
  Claim C3. A constructed \<open>bound_parser\<close> reports the cardinality (0,0) if
  \<open>isContainer()\<close> of its bound reference is true and (0,1) otherwise: through the
  protected constructor, given a pointer that owns an object, and through the public
  constructors, which create the object themselves.
\<close>

theorem bound_parser_ctor_cardinality:
  fixes s :: "('w::len size_t, 'r, 'd) state"
  shows "(ref_at s ref = Some r \<longrightarrow>
            (\<exists>s'. bound_parser_ctor isContainer this ref s = Some s' \<and>
                  map_option cardinality (parsers s' this)
                    = Some (if isContainer r then (0, 0) else (0, 1)))) \<and>
         (\<exists>s'. bound_parser_ctor_hint isContainer this r hint s = Some s' \<and>
               map_option cardinality (parsers s' this)
                 = Some (if isContainer r then (0, 0) else (0, 1)))"
proof (intro conjI impI)
  assume "ref_at s ref = Some r"
  then show "\<exists>s'. bound_parser_ctor isContainer this ref s = Some s' \<and>
      map_option cardinality (parsers s' this) = Some (if isContainer r then (0, 0) else (0, 1))"
    by (simp add: bound_parser_ctor_Some bound_parser_cardinality_def)
next
  obtain a s1 where ms: "make_shared r s = (a, s1)"
    by (cases "make_shared r s")
  have ctor: "bound_parser_ctor isContainer this a s1 =
    Some (s1\<lparr>parsers := (parsers s1)(this \<mapsto> Bound_parser
      \<lparr>m_ref = a, m_hint = [], m_description = [],
       m_cardinality = (if isContainer r then (0, 0) else (0, 1))\<rparr>)\<rparr>)"
    by (rule bound_parser_ctor_Some [OF ref_at_make_shared [OF ms]])
  show "\<exists>s'. bound_parser_ctor_hint isContainer this r hint s = Some s' \<and>
      map_option cardinality (parsers s' this) = Some (if isContainer r then (0, 0) else (0, 1))"
    by (simp add: bound_parser_ctor_hint_def ms ctor bound_parser_cardinality_def)
qed

theorem bound_parser_ctor_cardinality_witness:
  "ref_at example_state 0 = Some True \<and>
   (\<exists>s'. bound_parser_ctor example_isContainer 3 0 example_state = Some s' \<and>
      map_option cardinality (parsers s' 3) = Some (0, 0)) \<and>
   ref_at example_state 1 = Some False \<and>
   (\<exists>s'. bound_parser_ctor example_isContainer 3 1 example_state = Some s' \<and>
      map_option cardinality (parsers s' 3) = Some (0, 1)) \<and>
   (\<exists>s'. bound_parser_ctor_hint example_isContainer 3 True ''values'' example_state = Some s' \<and>
      map_option cardinality (parsers s' 3) = Some (0, 0))"
proof -
  have h0: "ref_at example_state 0 = Some True"
    and h1: "ref_at example_state 1 = Some False"
    by (simp_all add: ref_at_def example_state_def)
  show ?thesis
    using h0 h1
      bound_parser_ctor_cardinality [of example_state 0 True example_isContainer 3 "''values''"]
      bound_parser_ctor_cardinality [of example_state 1 False example_isContainer 3 "''values''"]
    by (simp add: example_isContainer_def)
qed

subsection \<open>Setting the cardinality\<close>

text \<open>
  Claim C4. On every \<open>bound_parser\<close>, for all \<open>n\<close> and \<open>m\<close> of type \<open>size_t\<close>:
  \<open>required()\<close> sets the cardinality to (1,1), \<open>optional()\<close> to (0,1),
  \<open>cardinality(n)\<close> to (n,n) and \<open>cardinality(n, m)\<close> to exactly (n,m), also when
  \<open>n > m\<close>, since nothing compares the two. Each call returns the address of the
  object it was called on, and \<open>cardinality()\<close> then reports the pair that was set.
\<close>

theorem bound_parser_set_cardinality:
  fixes s :: "('w::len size_t, 'r, 'd) state"
  assumes "parsers s this = Some (Bound_parser p)"
  shows "(\<exists>s'. bound_parser_required this s = Some (this, s') \<and>
            map_option cardinality (parsers s' this) = Some (1, 1)) \<and>
         (\<exists>s'. bound_parser_optional this s = Some (this, s') \<and>
            map_option cardinality (parsers s' this) = Some (0, 1)) \<and>
         (\<exists>s'. bound_parser_cardinality_n this n s = Some (this, s') \<and>
            map_option cardinality (parsers s' this) = Some (n, n)) \<and>
         (\<exists>s'. bound_parser_cardinality_n_m this n m s = Some (this, s') \<and>
            map_option cardinality (parsers s' this) = Some (n, m))"
  using fluent_call_Some [OF assms, of Fluent_required]
    fluent_call_Some [OF assms, of Fluent_optional]
    fluent_call_Some [OF assms, of "Fluent_cardinality_n n"]
    fluent_call_Some [OF assms, of "Fluent_cardinality_n_m n m"]
  by (simp add: bound_parser_cardinality_def)

theorem bound_parser_set_cardinality_witness:
  "parsers example_state 7 = Some (Bound_parser example_parser) \<and>
   (\<exists>s'. bound_parser_required 7 example_state = Some (7, s') \<and>
      map_option cardinality (parsers s' 7) = Some (1, 1)) \<and>
   (\<exists>s'. bound_parser_optional 7 example_state = Some (7, s') \<and>
      map_option cardinality (parsers s' 7) = Some (0, 1)) \<and>
   (\<exists>s'. bound_parser_cardinality_n 7 5 example_state = Some (7, s') \<and>
      map_option cardinality (parsers s' 7) = Some (5, 5)) \<and>
   (\<exists>s'. bound_parser_cardinality_n_m 7 5 2 example_state = Some (7, s') \<and>
      map_option cardinality (parsers s' 7) = Some (5, 2))"
proof -
  have h: "parsers example_state 7 = Some (Bound_parser example_parser)"
    by (simp add: example_state_def)
  show ?thesis
    using h bound_parser_set_cardinality [OF h, of 5 2] by simp
qed

subsection \<open>The default cardinality\<close>

text \<open>
  Claim C5. The cardinality that \<open>parser_base\<close> reports, and with it every parser
  type that does not override \<open>cardinality()\<close>, is (0,1).
\<close>

theorem parser_base_cardinality_default:
  "(parser_base_cardinality :: 'w::len size_t \<times> 'w size_t) = (0, 1) \<and>
   cardinality (Composable_parser :: 'w size_t parser) = (0, 1) \<and>
   unat (fst (cardinality (Composable_parser :: 'w size_t parser))) = 0 \<and>
   unat (snd (cardinality (Composable_parser :: 'w size_t parser))) = 1"
  by (simp add: parser_base_cardinality_def)

subsection \<open>The remaining capacity\<close>

text \<open>
  Claim C6. For every parser whose cardinality (min, max) has \<open>min \<le> max\<close>,
  \<open>cardinality_count()\<close> returns the number \<open>max - min\<close>, and that is zero only when
  \<open>min = max\<close>.
\<close>

theorem cardinality_count_in_order:
  assumes "fst (cardinality p) \<le> snd (cardinality p)"
  shows "unat (cardinality_count p) = unat (snd (cardinality p)) - unat (fst (cardinality p)) \<and>
         (cardinality_count p = 0 \<longleftrightarrow> fst (cardinality p) = snd (cardinality p))"
  using assms by (auto simp: cardinality_count_def Let_def unat_sub)

theorem cardinality_count_in_order_witness:
  "fst (cardinality (Bound_parser (example_parser\<lparr>m_cardinality := (2, 5)\<rparr>)))
     \<le> snd (cardinality (Bound_parser (example_parser\<lparr>m_cardinality := (2, 5)\<rparr>))) \<and>
   unat (cardinality_count (Bound_parser (example_parser\<lparr>m_cardinality := (2, 5)\<rparr>))) = 3 \<and>
   cardinality_count (Bound_parser (example_parser\<lparr>m_cardinality := (2, 5)\<rparr>)) \<noteq> 0"
proof -
  have h: "fst (cardinality (Bound_parser (example_parser\<lparr>m_cardinality := (2, 5)\<rparr>)))
     \<le> snd (cardinality (Bound_parser (example_parser\<lparr>m_cardinality := (2, 5)\<rparr>)))"
    by (simp add: bound_parser_cardinality_def)
  show ?thesis
    using h cardinality_count_in_order [OF h]
    by (simp add: bound_parser_cardinality_def)
qed

text \<open>
  Claim C9, as amended. For every parser whose cardinality has \<open>min > max\<close>, as
  after \<open>cardinality(n, m)\<close> with \<open>n > m\<close>, the unchecked subtraction of
  \<open>cardinality_count()\<close> wraps around: the result is \<open>(max - min) mod 2 ^ w\<close> for the
  width \<open>w\<close> of \<open>size_t\<close>. No error is raised and the result is not zero; it is the
  number \<open>2 ^ w - (min - max)\<close>, which lies above \<open>max\<close>. How large it is depends on
  \<open>min - max\<close>.
\<close>

theorem cardinality_count_wraps:
  fixes p :: "'w::len size_t parser"
  assumes "snd (cardinality p) < fst (cardinality p)"
  shows "uint (cardinality_count p)
           = (uint (snd (cardinality p)) - uint (fst (cardinality p))) mod 2 ^ LENGTH('w) \<and>
         unat (cardinality_count p)
           = 2 ^ LENGTH('w) - (unat (fst (cardinality p)) - unat (snd (cardinality p))) \<and>
         cardinality_count p \<noteq> 0 \<and>
         snd (cardinality p) < cardinality_count p"
proof -
  let ?lo = "fst (cardinality p)" and ?hi = "snd (cardinality p)"
  have lt: "unat ?hi < unat ?lo"
    using assms by (simp add: word_less_nat_alt)
  have lo: "unat ?lo < 2 ^ LENGTH('w)"
    by (rule unsigned_less)
  have u: "unat (?hi - ?lo) = 2 ^ LENGTH('w) + unat ?hi - unat ?lo"
    using lt by (simp add: unat_sub_if')
  have a: "uint (cardinality_count p) = (uint ?hi - uint ?lo) mod 2 ^ LENGTH('w)"
    by (simp add: cardinality_count_def Let_def uint_word_ariths)
  have b: "unat (cardinality_count p) = 2 ^ LENGTH('w) - (unat ?lo - unat ?hi)"
    using u lt lo by (simp add: cardinality_count_def Let_def)
  have c: "cardinality_count p \<noteq> 0"
    using assms by (simp add: cardinality_count_def Let_def)
  have "unat ?hi < 2 ^ LENGTH('w) - (unat ?lo - unat ?hi)"
    using lt lo by linarith
  then have d: "?hi < cardinality_count p"
    by (simp add: word_less_nat_alt b)
  from a b c d show ?thesis by blast
qed

theorem cardinality_count_wraps_witness:
  "bound_parser_cardinality_n_m 7 5 2 example_state
     = Some (7, example_state\<lparr>parsers := (parsers example_state)(7 \<mapsto>
         Bound_parser (example_parser\<lparr>m_cardinality := (5, 2)\<rparr>))\<rparr>) \<and>
   snd (cardinality (Bound_parser (example_parser\<lparr>m_cardinality := (5, 2)\<rparr>)))
     < fst (cardinality (Bound_parser (example_parser\<lparr>m_cardinality := (5, 2)\<rparr>))) \<and>
   unat (cardinality_count (Bound_parser (example_parser\<lparr>m_cardinality := (5, 2)\<rparr>)))
     = 18446744073709551613"
proof -
  have h: "snd (cardinality (Bound_parser (example_parser\<lparr>m_cardinality := (5, 2)\<rparr>)))
     < fst (cardinality (Bound_parser (example_parser\<lparr>m_cardinality := (5, 2)\<rparr>)))"
    by (simp add: bound_parser_cardinality_def)
  show ?thesis
    using h cardinality_count_wraps [OF h]
    by (simp add: bound_parser_cardinality_def bound_parser_cardinality_n_m_def example_state_def)
qed

text \<open>
  The claim as first stated calls the wrapped result a very large value. With the
  width 64, \<open>cardinality(2 ^ 64 - 1, 0)\<close> stores a pair with \<open>min > max\<close>, and
  \<open>cardinality_count()\<close> returns 1 for it.
\<close>

theorem cardinality_count_wraps_small_counterexample:
  "bound_parser_cardinality_n_m 7 18446744073709551615 0 example_state
     = Some (7, example_state\<lparr>parsers := (parsers example_state)(7 \<mapsto>
         Bound_parser (example_parser\<lparr>m_cardinality := (18446744073709551615, 0)\<rparr>))\<rparr>) \<and>
   snd (cardinality (Bound_parser (example_parser\<lparr>m_cardinality := (18446744073709551615, 0)\<rparr>)))
     < fst (cardinality (Bound_parser (example_parser\<lparr>m_cardinality := (18446744073709551615, 0)\<rparr>))) \<and>
   unat (fst (cardinality (Bound_parser (example_parser\<lparr>m_cardinality := (18446744073709551615, 0)\<rparr>))))
     = 2 ^ 64 - 1 \<and>
   cardinality_count (Bound_parser (example_parser\<lparr>m_cardinality := (18446744073709551615, 0)\<rparr>))
     = 1"
  by (simp add: bound_parser_cardinality_def bound_parser_cardinality_n_m_def example_state_def
      cardinality_count_def)

subsection \<open>The default customization\<close>

text \<open>
  Claim C7. The default customization gives exactly the characters space and \<open>=\<close> as
  token delimiters and exactly the character \<open>-\<close> as option prefix, and \<open>parse\<close> uses
  this customization, for the token iterator and for the parser proper, when the
  caller passes none.
\<close>

theorem default_parser_customization_used:
  "token_delimiters default_parser_customization = [CHR '' '', CHR ''=''] \<and>
   set (token_delimiters default_parser_customization) = {CHR '' '', CHR ''=''} \<and>
   option_prefix default_parser_customization = [CHR ''-''] \<and>
   set (option_prefix default_parser_customization) = {CHR ''-''} \<and>
   parser_base_parse vparse exe_name token_iterator args None
     = vparse (exe_name args) (token_iterator args '' ='' ''-'') default_parser_customization \<and>
   parser_base_parse vparse exe_name token_iterator args None
     = parser_base_parse vparse exe_name token_iterator args (Some default_parser_customization)"
  by (simp add: default_parser_customization_def parser_base_parse_def)

subsection \<open>What the fluent calls leave alone\<close>

text \<open>
  Claim C8. On every \<open>bound_parser\<close>, each of \<open>required()\<close>, \<open>optional()\<close>,
  \<open>cardinality(n)\<close>, \<open>cardinality(n, m)\<close> and \<open>operator()\<close> with a description returns
  the address of the object it was called on and changes nothing but that object's
  cardinality (the first four) or description (the last): \<open>m_ref\<close> and the hint keep
  their values, and so do the \<open>BoundRef\<close> objects, the destinations and every other
  parser object.
\<close>

theorem fluent_call_frame:
  fixes s :: "('w::len size_t, 'r, 'd) state"
  assumes "parsers s this = Some (Bound_parser p)"
  shows "\<exists>s' p'. fluent_call f this s = Some (this, s') \<and>
           parsers s' this = Some (Bound_parser p') \<and>
           m_ref p' = m_ref p \<and> bound_parser_hint p' = bound_parser_hint p \<and>
           p'\<lparr>m_cardinality := m_cardinality p, m_description := m_description p\<rparr> = p \<and>
           (case f of Fluent_description d \<Rightarrow> m_cardinality p' = m_cardinality p
            | _ \<Rightarrow> m_description p' = m_description p) \<and>
           (\<forall>a. a \<noteq> this \<longrightarrow> parsers s' a = parsers s a) \<and>
           refs s' = refs s \<and> ref_at s' (m_ref p') = ref_at s (m_ref p) \<and>
           dests s' = dests s"
  unfolding fluent_call_Some [OF assms, of f]
  by (cases f) (simp_all add: bound_parser_hint_def ref_at_def)

theorem fluent_call_frame_witness:
  "parsers example_state 7 = Some (Bound_parser example_parser) \<and>
   (\<exists>s' p'. fluent_call (Fluent_description ''the name'') 7 example_state = Some (7, s') \<and>
      parsers s' 7 = Some (Bound_parser p') \<and>
      m_ref p' = 1 \<and> bound_parser_hint p' = ''name'' \<and> m_cardinality p' = (0, 1) \<and>
      (\<forall>a. a \<noteq> 7 \<longrightarrow> parsers s' a = parsers example_state a) \<and>
      refs s' = [True, False] \<and> dests s' = [''v'']) \<and>
   (\<exists>s' p'. fluent_call (Fluent_cardinality_n_m 5 2) 7 example_state = Some (7, s') \<and>
      parsers s' 7 = Some (Bound_parser p') \<and>
      m_ref p' = 1 \<and> bound_parser_hint p' = ''name'' \<and> m_description p' = [] \<and>
      (\<forall>a. a \<noteq> 7 \<longrightarrow> parsers s' a = parsers example_state a) \<and>
      refs s' = [True, False] \<and> dests s' = [''v''])"
proof -
  have h: "parsers example_state 7 = Some (Bound_parser example_parser)"
    by (simp add: example_state_def)
  show ?thesis
    using h fluent_call_frame [OF h, of "Fluent_description ''the name''"]
      fluent_call_frame [OF h, of "Fluent_cardinality_n_m 5 2"]
    by (auto simp: example_state_def example_parser_def bound_parser_hint_def)
qed

subsection \<open>\<open>parse_state\<close> is a value\<close>

text \<open>
  Claim C10. For every result type \<open>t\<close> and token iterator \<open>i\<close>, the object
  \<open>parse_state(t, i)\<close> answers \<open>type()\<close> with \<open>t\<close> and \<open>remainingTokens()\<close> with \<open>i\<close>,
  and no operation of the class changes the object: after any sequence of calls it
  is the object that was constructed, and every call in the sequence got \<open>t\<close> or \<open>i\<close>.
\<close>

theorem parse_state_immutable:
  "parse_state_type (parse_state_ctor t i) = t \<and>
   parse_state_remainingTokens (parse_state_ctor t i) = i \<and>
   snd (parse_state_call c (parse_state_ctor t i)) = parse_state_ctor t i \<and>
   snd (parse_state_calls cs (parse_state_ctor t i)) = parse_state_ctor t i \<and>
   fst (parse_state_calls cs (parse_state_ctor t i))
     = map (\<lambda>c. case c of Call_type \<Rightarrow> Ret_type t
                 | Call_remainingTokens \<Rightarrow> Ret_remainingTokens i) cs"
proof -
  have acc: "parse_state_type (parse_state_ctor t i) = t"
    "parse_state_remainingTokens (parse_state_ctor t i) = i"
    by (simp_all add: parse_state_type_def parse_state_remainingTokens_def parse_state_ctor_def)
  have one: "fst (parse_state_call c (parse_state_ctor t i))
      = (case c of Call_type \<Rightarrow> Ret_type t | Call_remainingTokens \<Rightarrow> Ret_remainingTokens i)"
    for c
    by (cases c) (simp_all add: acc)
  show ?thesis
    by (simp add: acc one parse_state_call_unchanged parse_state_calls_unchanged
        parse_state_calls_results)
qed

end
